theory Spec2Isabelle
  imports Complex_Main "HOL-Library.AList"
begin

section \<open>The embedding service (main.py)\<close>

text \<open>
  The service is a FastAPI application with four endpoints, a catch-all OPTIONS route and
  two HTTP middlewares. Its process-wide state is the environment value \<open>AUTH_TOKEN\<close>
  and the global \<open>model\<close>, which is \<open>None\<close> until the lifespan hook has loaded the
  sentence-transformers model. Both are passed to the functions below as arguments.
  Writing to standard output (the \<open>print\<close> calls) is not modelled.
\<close>

subsection \<open>Configuration and the external model\<close>

definition MODEL_NAME :: string where
  "MODEL_NAME = ''intfloat/multilingual-e5-large''"

text \<open>A Python exception caught by \<open>except Exception as e\<close>, carried as \<open>str(e)\<close>.\<close>

datatype exn = Exception string

text \<open>
  The loaded model is an opaque library object. The service uses one method of it,
  \<open>encode(x, convert_to_numpy=True)\<close>, followed by \<open>.tolist()\<close>: on a \<open>str\<close> the result is
  one vector, on a list of \<open>str\<close> a list of vectors. Either call may raise.
\<close>

record SentenceTransformer =
  encode_str :: "string \<Rightarrow> exn + real list"
  encode_list :: "string list \<Rightarrow> exn + real list list"

subsection \<open>Request and response models\<close>

text \<open>
  The pydantic models, field by field. The field \<open>text\<close> of \<open>EmbedRequest\<close> and the
  request's \<open>method\<close> carry a prime here, since both words are Isabelle keywords.
\<close>

record EmbedRequest =
  text' :: string

record EmbedBatchRequest =
  texts :: "string list"

record EmbedResponse =
  embedding :: "real list"
  dimensions :: nat
  model :: string

record EmbedBatchResponse =
  embeddings :: "real list list"
  dimensions :: nat
  model :: string

record HealthResponse =
  status :: string
  service :: string
  model :: string
  dimensions :: nat

record ModelInfoResponse =
  name :: string
  dimensions :: nat
  loaded :: bool
  languages :: string

datatype http_method = GET | POST | OPTIONS | HEAD | PUT | PATCH | DELETE

text \<open>
  The JSON body of a request, as far as the two request models read it: an object whose
  \<open>text\<close> field is a string, an object whose \<open>texts\<close> field is a list of strings, or
  anything else (no body, malformed JSON, a missing or ill-typed field).
\<close>

datatype body = JSON_text string | JSON_texts "string list" | Other_body

record Request = method' :: http_method
  path :: string
  headers :: "string \<rightharpoonup> string"
  body :: body

text \<open>
  What a response carries: one of the response models, the dictionary given to a
  \<open>JSONResponse\<close>, the \<open>{"detail": ...}\<close> object FastAPI renders for an \<open>HTTPException\<close>,
  or the error list FastAPI renders for a request body that fails validation. The field
  \<open>headers\<close> holds the headers the code of the service sets; the content type and length
  the framework adds are left out.
\<close>

datatype content =
    Health HealthResponse
  | Embedded EmbedResponse
  | EmbeddedBatch EmbedBatchResponse
  | Info ModelInfoResponse
  | Dict "(string \<times> string) list"
  | Detail string
  | ValidationErrors

record Response =
  status_code :: nat
  content :: content
  headers :: "(string \<times> string) list"

datatype HTTPException = HTTPException nat string

text \<open>
  The observable effects of serving one request: which endpoint function was entered,
  and each call of the model's \<open>encode\<close> with its argument.
\<close>

datatype event = Endpoint string | Encode_str string | Encode_list "string list"

definition JSONResponse :: "nat \<Rightarrow> content \<Rightarrow> Response" where
  "JSONResponse sc c = \<lparr>status_code = sc, content = c, Response.headers = []\<rparr>"

subsection \<open>Request validation (pydantic field constraints)\<close>

text \<open>
  \<open>text: str = Field(..., min_length=1)\<close> and
  \<open>texts: List[str] = Field(..., min_items=1)\<close>. \<open>None\<close> stands for the validation
  error. A string is non-empty whether its length is counted in code points or bytes.
\<close>

definition EmbedRequest_validate :: "body \<Rightarrow> EmbedRequest option" where
  "EmbedRequest_validate b =
     (case b of
        JSON_text s \<Rightarrow> if 1 \<le> length s then Some \<lparr>text' = s\<rparr> else None
      | _ \<Rightarrow> None)"

definition EmbedBatchRequest_validate :: "body \<Rightarrow> EmbedBatchRequest option" where
  "EmbedBatchRequest_validate b =
     (case b of
        JSON_texts ts \<Rightarrow> if 1 \<le> length ts then Some \<lparr>texts = ts\<rparr> else None
      | _ \<Rightarrow> None)"

subsection \<open>Endpoints\<close>

definition health :: HealthResponse where
  "health = \<lparr>status = ''healthy'', service = ''embedding-service'',
     HealthResponse.model = MODEL_NAME, HealthResponse.dimensions = 1024\<rparr>"

definition embed ::
  "SentenceTransformer option \<Rightarrow> EmbedRequest \<Rightarrow> (HTTPException + EmbedResponse) \<times> event list" where
  "embed mdl request =
     (case mdl of
        None \<Rightarrow> (Inl (HTTPException 503 ''Model not loaded''), [])
      | Some m \<Rightarrow>
          (case encode_str m (text' request) of
             Inl (Exception e) \<Rightarrow>
               (Inl (HTTPException 500 (''Failed to generate embedding: '' @ e)),
                [Encode_str (text' request)])
           | Inr embedding_list \<Rightarrow>
               (Inr \<lparr>embedding = embedding_list,
                     EmbedResponse.dimensions = length embedding_list,
                     EmbedResponse.model = MODEL_NAME\<rparr>,
                [Encode_str (text' request)])))"

text \<open>\<open>xs[0]\<close>: raises \<open>IndexError\<close> on an empty list.\<close>

definition getitem0 :: "'a list \<Rightarrow> exn + 'a" where
  "getitem0 xs = (case xs of [] \<Rightarrow> Inl (Exception ''list index out of range'') | x # _ \<Rightarrow> Inr x)"

text \<open>\<open>len(embeddings_list[0]) if embeddings_list else 0\<close>.\<close>

definition first_dimensions :: "real list list \<Rightarrow> exn + nat" where
  "first_dimensions embeddings_list =
     (if embeddings_list \<noteq> [] then
        (case getitem0 embeddings_list of Inl e \<Rightarrow> Inl e | Inr v \<Rightarrow> Inr (length v))
      else Inr 0)"

definition embed_batch ::
  "SentenceTransformer option \<Rightarrow> EmbedBatchRequest \<Rightarrow>
     (HTTPException + EmbedBatchResponse) \<times> event list" where
  "embed_batch mdl request =
     (case mdl of
        None \<Rightarrow> (Inl (HTTPException 503 ''Model not loaded''), [])
      | Some m \<Rightarrow>
          (case encode_list m (texts request) of
             Inl (Exception e) \<Rightarrow>
               (Inl (HTTPException 500 (''Failed to generate embeddings: '' @ e)),
                [Encode_list (texts request)])
           | Inr embeddings_list \<Rightarrow>
               (case first_dimensions embeddings_list of
                  Inl (Exception e) \<Rightarrow>
                    (Inl (HTTPException 500 (''Failed to generate embeddings: '' @ e)),
                     [Encode_list (texts request)])
                | Inr d \<Rightarrow>
                    (Inr \<lparr>embeddings = embeddings_list,
                          EmbedBatchResponse.dimensions = d,
                          EmbedBatchResponse.model = MODEL_NAME\<rparr>,
                     [Encode_list (texts request)]))))"

definition model_info :: "SentenceTransformer option \<Rightarrow> ModelInfoResponse" where
  "model_info mdl = \<lparr>name = MODEL_NAME, ModelInfoResponse.dimensions = 1024,
     loaded = (mdl \<noteq> None), languages = ''100+''\<rparr>"

definition options_handler :: Response where
  "options_handler = JSONResponse 204 (Dict [])"

subsection \<open>Routing\<close>

text \<open>
  FastAPI answers a raised \<open>HTTPException\<close> with its status code and detail, a returned
  response model with status 200, and a body that fails validation with status 422,
  without entering the endpoint function.
\<close>

definition respond :: "('a \<Rightarrow> content) \<Rightarrow> HTTPException + 'a \<Rightarrow> Response" where
  "respond wrap r =
     (case r of
        Inl (HTTPException sc d) \<Rightarrow> JSONResponse sc (Detail d)
      | Inr v \<Rightarrow> JSONResponse 200 (wrap v))"

text \<open>The route \<open>/{path:path}\<close> matches every path that starts with a slash.\<close>

definition any_path :: "string \<Rightarrow> bool" where
  "any_path p = (case p of [] \<Rightarrow> False | c # _ \<Rightarrow> c = CHR ''/'')"

text \<open>
  Routes are tried in the order of their declaration. A path that matches a route only
  under another method is answered 405; since the OPTIONS route matches every path, this
  is the answer for every request no route serves. The routes are those \<open>main.py\<close>
  declares; the documentation pages FastAPI adds by itself are left out.
\<close>

definition router :: "SentenceTransformer option \<Rightarrow> Request \<Rightarrow> Response \<times> event list" where
  "router mdl request =
     (if method' request = GET \<and> path request = ''/health'' then
        (JSONResponse 200 (Health health), [Endpoint ''health''])
      else if method' request = POST \<and> path request = ''/embed'' then
        (case EmbedRequest_validate (body request) of
           None \<Rightarrow> (JSONResponse 422 ValidationErrors, [])
         | Some r \<Rightarrow> (respond Embedded (fst (embed mdl r)), Endpoint ''embed'' # snd (embed mdl r)))
      else if method' request = POST \<and> path request = ''/embed/batch'' then
        (case EmbedBatchRequest_validate (body request) of
           None \<Rightarrow> (JSONResponse 422 ValidationErrors, [])
         | Some r \<Rightarrow>
             (respond EmbeddedBatch (fst (embed_batch mdl r)),
              Endpoint ''embed_batch'' # snd (embed_batch mdl r)))
      else if method' request = GET \<and> path request = ''/model/info'' then
        (JSONResponse 200 (Info (model_info mdl)), [Endpoint ''model_info''])
      else if method' request = OPTIONS \<and> any_path (path request) then
        (options_handler, [Endpoint ''options_handler''])
      else if any_path (path request) then
        (JSONResponse 405 (Detail ''Method Not Allowed''), [])
      else (JSONResponse 404 (Detail ''Not Found''), []))"

subsection \<open>Middlewares\<close>

text \<open>Python's \<open>not x\<close> for an optional string: true for \<open>None\<close> and for the empty string.\<close>

definition py_not :: "string option \<Rightarrow> bool" where
  "py_not x = (case x of None \<Rightarrow> True | Some s \<Rightarrow> s = [])"

text \<open>The f-string \<open>f"Bearer {AUTH_TOKEN}"\<close>.\<close>

definition bearer :: "string option \<Rightarrow> string" where
  "bearer tok = ''Bearer '' @ (case tok of None \<Rightarrow> ''None'' | Some s \<Rightarrow> s)"

definition auth_middleware ::
  "string option \<Rightarrow> Request \<Rightarrow> (Request \<Rightarrow> Response \<times> event list) \<Rightarrow> Response \<times> event list" where
  "auth_middleware AUTH_TOKEN request call_next =
     (if path request = ''/health'' then call_next request
      else if py_not AUTH_TOKEN then call_next request
      else
        (let auth_header = Request.headers request ''Authorization'' in
         if py_not auth_header \<or> auth_header \<noteq> Some (bearer AUTH_TOKEN) then
           (JSONResponse 401 (Dict [(''error'', ''Unauthorized'')]), [])
         else call_next request))"

definition cors_middleware ::
  "Request \<Rightarrow> (Request \<Rightarrow> Response \<times> event list) \<Rightarrow> Response \<times> event list" where
  "cors_middleware request call_next =
     (let response = fst (call_next request);
          h1 = AList.update ''Access-Control-Allow-Origin'' ''*'' (Response.headers response);
          h2 = AList.update ''Access-Control-Allow-Methods'' ''GET, POST, OPTIONS'' h1;
          h3 = AList.update ''Access-Control-Allow-Headers'' ''Content-Type, Authorization'' h2
      in (response\<lparr>Response.headers := h3\<rparr>, snd (call_next request)))"

text \<open>
  The application. Starlette puts the middleware registered last outermost, so a request
  passes \<open>cors_middleware\<close> first, then \<open>auth_middleware\<close>, then the router.
\<close>

definition app :: "string option \<Rightarrow> SentenceTransformer option \<Rightarrow> Request \<Rightarrow> Response \<times> event list" where
  "app AUTH_TOKEN mdl request =
     cors_middleware request (\<lambda>r. auth_middleware AUTH_TOKEN r (router mdl))"

text \<open>The three headers \<open>cors_middleware\<close> writes, on a response that had none.\<close>

definition cors_headers :: "(string \<times> string) list" where
  "cors_headers =
     [(''Access-Control-Allow-Origin'', ''*''),
      (''Access-Control-Allow-Methods'', ''GET, POST, OPTIONS''),
      (''Access-Control-Allow-Headers'', ''Content-Type, Authorization'')]"

text \<open>
  The requests \<open>auth_middleware\<close> hands to \<open>call_next\<close>: those for the health path, all
  requests when \<open>AUTH_TOKEN\<close> is unset or empty, and otherwise those whose
  \<open>Authorization\<close> header is the bearer string of the token.
\<close>

definition admits :: "string option \<Rightarrow> Request \<Rightarrow> bool" where
  "admits AUTH_TOKEN request \<longleftrightarrow>
     path request = ''/health'' \<or> py_not AUTH_TOKEN \<or>
     Request.headers request ''Authorization'' = Some (bearer AUTH_TOKEN)"

definition unauthorized :: Response where
  "unauthorized = JSONResponse 401 (Dict [(''error'', ''Unauthorized'')])"

text \<open>A stand-in for the loaded model: every text is encoded as the zero vector of length 1024.\<close>

definition zero_model :: SentenceTransformer where
  "zero_model = \<lparr>encode_str = (\<lambda>s. Inr (replicate 1024 0)),
     encode_list = (\<lambda>ts. Inr (map (\<lambda>s. replicate 1024 0) ts))\<rparr>"

text \<open>A stand-in whose \<open>encode\<close> always raises.\<close>

definition failing_model :: SentenceTransformer where
  "failing_model = \<lparr>encode_str = (\<lambda>s. Inl (Exception ''CUDA out of memory'')),
     encode_list = (\<lambda>ts. Inl (Exception ''CUDA out of memory''))\<rparr>"

text \<open>
  A stand-in that tells the texts apart: each text is encoded as the vector of length
  1024 filled with the number of characters of the text.
\<close>

definition length_model :: SentenceTransformer where
  "length_model = \<lparr>encode_str = (\<lambda>s. Inr (replicate 1024 (real (length s)))),
     encode_list = (\<lambda>ts. Inr (map (\<lambda>s. replicate 1024 (real (length s))) ts))\<rparr>"

text \<open>
  A stand-in whose \<open>encode\<close> succeeds with one vector of length 1, whatever it is given.
\<close>

definition short_model :: SentenceTransformer where
  "short_model = \<lparr>encode_str = (\<lambda>s. Inr [1]), encode_list = (\<lambda>ts. Inr [[1]])\<rparr>"

section \<open>Basic facts\<close>

lemma auth_middleware_admits:
  "admits tok req \<Longrightarrow> auth_middleware tok req call_next = call_next req"
  by (auto simp add: auth_middleware_def admits_def py_not_def bearer_def Let_def
      split: option.splits)

lemma auth_middleware_rejects:
  "\<not> admits tok req \<Longrightarrow> auth_middleware tok req call_next = (unauthorized, [])"
  by (simp add: auth_middleware_def admits_def unauthorized_def Let_def)

lemma router_headers: "Response.headers (fst (router mdl req)) = []"
  by (simp add: router_def respond_def JSONResponse_def options_handler_def
      split: option.splits sum.splits HTTPException.splits)

lemma app_admitted:
  assumes "admits tok req"
  shows "app tok mdl req =
    ((fst (router mdl req))\<lparr>Response.headers := cors_headers\<rparr>, snd (router mdl req))"
  using assms
  by (simp add: app_def cors_middleware_def Let_def auth_middleware_admits router_headers
      cors_headers_def)

lemma app_rejected:
  assumes "\<not> admits tok req"
  shows "app tok mdl req = (unauthorized\<lparr>Response.headers := cors_headers\<rparr>, [])"
  using assms
  by (simp add: app_def cors_middleware_def Let_def auth_middleware_rejects unauthorized_def
      JSONResponse_def cors_headers_def)

lemma router_health:
  "method' req = GET \<Longrightarrow> path req = ''/health'' \<Longrightarrow>
   router mdl req = (JSONResponse 200 (Health health), [Endpoint ''health''])"
  by (simp add: router_def)

lemma router_embed:
  "method' req = POST \<Longrightarrow> path req = ''/embed'' \<Longrightarrow>
   router mdl req =
     (case EmbedRequest_validate (body req) of
        None \<Rightarrow> (JSONResponse 422 ValidationErrors, [])
      | Some r \<Rightarrow> (respond Embedded (fst (embed mdl r)), Endpoint ''embed'' # snd (embed mdl r)))"
  by (simp add: router_def)

lemma router_embed_batch:
  "method' req = POST \<Longrightarrow> path req = ''/embed/batch'' \<Longrightarrow>
   router mdl req =
     (case EmbedBatchRequest_validate (body req) of
        None \<Rightarrow> (JSONResponse 422 ValidationErrors, [])
      | Some r \<Rightarrow>
          (respond EmbeddedBatch (fst (embed_batch mdl r)),
           Endpoint ''embed_batch'' # snd (embed_batch mdl r)))"
  by (simp add: router_def)

lemma router_model_info:
  "method' req = GET \<Longrightarrow> path req = ''/model/info'' \<Longrightarrow>
   router mdl req = (JSONResponse 200 (Info (model_info mdl)), [Endpoint ''model_info''])"
  by (simp add: router_def)

lemma router_options:
  "method' req = OPTIONS \<Longrightarrow> any_path (path req) \<Longrightarrow>
   router mdl req = (options_handler, [Endpoint ''options_handler''])"
  by (simp add: router_def)

lemma embed_unloaded: "embed None r = (Inl (HTTPException 503 ''Model not loaded''), [])"
  by (simp add: embed_def)

lemma embed_batch_unloaded:
  "embed_batch None r = (Inl (HTTPException 503 ''Model not loaded''), [])"
  by (simp add: embed_batch_def)

lemma embed_loaded_calls: "snd (embed (Some m) r) = [Encode_str (text' r)]"
  by (simp add: embed_def split: sum.splits exn.splits)

lemma embed_batch_loaded_calls: "snd (embed_batch (Some m) r) = [Encode_list (texts r)]"
  by (simp add: embed_batch_def split: sum.splits exn.splits)

lemma app_embed:
  assumes "admits tok req" "method' req = POST" "path req = ''/embed''"
    and "EmbedRequest_validate (body req) = Some r"
  shows "app tok mdl req =
    ((respond Embedded (fst (embed mdl r)))\<lparr>Response.headers := cors_headers\<rparr>,
     Endpoint ''embed'' # snd (embed mdl r))"
  using assms by (simp add: app_admitted router_embed)

lemma app_embed_invalid:
  assumes "admits tok req" "method' req = POST" "path req = ''/embed''"
    and "EmbedRequest_validate (body req) = None"
  shows "app tok mdl req =
    (\<lparr>status_code = 422, content = ValidationErrors, Response.headers = cors_headers\<rparr>, [])"
  using assms by (simp add: app_admitted router_embed JSONResponse_def)

lemma app_embed_batch:
  assumes "admits tok req" "method' req = POST" "path req = ''/embed/batch''"
    and "EmbedBatchRequest_validate (body req) = Some r"
  shows "app tok mdl req =
    ((respond EmbeddedBatch (fst (embed_batch mdl r)))\<lparr>Response.headers := cors_headers\<rparr>,
     Endpoint ''embed_batch'' # snd (embed_batch mdl r))"
  using assms by (simp add: app_admitted router_embed_batch)


lemma validate_text: "EmbedRequest_validate (JSON_text s) = (if s = [] then None else Some \<lparr>text' = s\<rparr>)"
  by (cases s) (simp_all add: EmbedRequest_validate_def)

lemma validate_texts:
  "EmbedBatchRequest_validate (JSON_texts ts) = (if ts = [] then None else Some \<lparr>texts = ts\<rparr>)"
  by (cases ts) (simp_all add: EmbedBatchRequest_validate_def)

lemma first_dimensions_total:
  "first_dimensions vs = Inr (case vs of [] \<Rightarrow> 0 | v # _ \<Rightarrow> length v)"
  by (cases vs) (simp_all add: first_dimensions_def getitem0_def)

lemma embed_batch_ok:
  "encode_list m (texts r) = Inr vs \<Longrightarrow>
   embed_batch (Some m) r =
     (Inr \<lparr>embeddings = vs,
        EmbedBatchResponse.dimensions = (case vs of [] \<Rightarrow> 0 | v # _ \<Rightarrow> length v),
        EmbedBatchResponse.model = MODEL_NAME\<rparr>, [Encode_list (texts r)])"
  by (simp add: embed_batch_def first_dimensions_total)


lemma embed_raises:
  "encode_str m (text' r) = Inl (Exception e) \<Longrightarrow>
   embed (Some m) r =
     (Inl (HTTPException 500 (''Failed to generate embedding: '' @ e)), [Encode_str (text' r)])"
  by (simp add: embed_def)

lemma embed_batch_raises:
  "encode_list m (texts r) = Inl (Exception e) \<Longrightarrow>
   embed_batch (Some m) r =
     (Inl (HTTPException 500 (''Failed to generate embeddings: '' @ e)),
      [Encode_list (texts r)])"
  by (simp add: embed_batch_def)

lemma app_embed_batch_encode:
  assumes "admits tok req" "method' req = POST" "path req = ''/embed/batch''"
    and "body req = JSON_texts ts" "ts \<noteq> []"
  shows "app tok (Some m) req =
    (case encode_list m ts of
       Inl (Exception e) \<Rightarrow>
         (\<lparr>status_code = 500, content = Detail (''Failed to generate embeddings: '' @ e),
           Response.headers = cors_headers\<rparr>,
          [Endpoint ''embed_batch'', Encode_list ts])
     | Inr vs \<Rightarrow>
         (\<lparr>status_code = 200,
           content = EmbeddedBatch
             \<lparr>embeddings = vs,
              EmbedBatchResponse.dimensions = (case vs of [] \<Rightarrow> 0 | v # _ \<Rightarrow> length v),
              EmbedBatchResponse.model = MODEL_NAME\<rparr>,
           Response.headers = cors_headers\<rparr>,
          [Endpoint ''embed_batch'', Encode_list ts]))"
proof -
  from assms(4,5) have v: "EmbedBatchRequest_validate (body req) = Some \<lparr>texts = ts\<rparr>"
    by (simp add: validate_texts)
  show ?thesis
  proof (cases "encode_list m ts")
    case (Inl x)
    then obtain e where "encode_list m ts = Inl (Exception e)"
      by (cases x) simp
    then show ?thesis
      using app_embed_batch [OF assms(1-3) v, of "Some m"]
        embed_batch_raises [of m "\<lparr>texts = ts\<rparr>" e]
      by (simp add: respond_def JSONResponse_def)
  next
    case (Inr vs)
    then show ?thesis
      using app_embed_batch [OF assms(1-3) v, of "Some m"]
        embed_batch_ok [of m "\<lparr>texts = ts\<rparr>" vs]
      by (simp add: respond_def JSONResponse_def)
  qed
qed

section \<open>The authentication gate\<close>



section \<open>Readiness\<close>

text \<open>
  Claim C2. While the global model is \<open>None\<close>, the endpoint functions \<open>embed\<close> and
  \<open>embed_batch\<close> raise the 503 exception "Model not loaded" for every validated request,
  without calling the model; a request to \<open>POST /embed\<close> or \<open>POST /embed/batch\<close> that
  has passed the authentication gate and body validation is answered 503 by the
  application. \<open>GET /health\<close> is answered 200, and \<open>GET /model/info\<close> (once past the
  gate) is answered 200 with \<open>loaded = False\<close>. Once a model is loaded, \<open>model_info\<close>
  reports \<open>loaded = True\<close> and neither embedding endpoint answers 503: both call the
  model's \<open>encode\<close>.
\<close>

theorem readiness_gate:
  "embed None r = (Inl (HTTPException 503 ''Model not loaded''), []) \<and>
   embed_batch None rb = (Inl (HTTPException 503 ''Model not loaded''), []) \<and>
   (admits tok req \<and> method' req = POST \<and> path req = ''/embed'' \<and>
    EmbedRequest_validate (body req) \<noteq> None \<longrightarrow>
      app tok None req =
        (\<lparr>status_code = 503, content = Detail ''Model not loaded'',
          Response.headers = cors_headers\<rparr>, [Endpoint ''embed''])) \<and>
   (admits tok req \<and> method' req = POST \<and> path req = ''/embed/batch'' \<and>
    EmbedBatchRequest_validate (body req) \<noteq> None \<longrightarrow>
      app tok None req =
        (\<lparr>status_code = 503, content = Detail ''Model not loaded'',
          Response.headers = cors_headers\<rparr>, [Endpoint ''embed_batch''])) \<and>
   (method' req = GET \<and> path req = ''/health'' \<longrightarrow>
      status_code (fst (app tok None req)) = 200 \<and>
      content (fst (app tok None req)) = Health health \<and>
      snd (app tok None req) = [Endpoint ''health'']) \<and>
   (admits tok req \<and> method' req = GET \<and> path req = ''/model/info'' \<longrightarrow>
      app tok None req =
        (\<lparr>status_code = 200,
          content = Info \<lparr>name = MODEL_NAME, ModelInfoResponse.dimensions = 1024,
            loaded = False, languages = ''100+''\<rparr>,
          Response.headers = cors_headers\<rparr>, [Endpoint ''model_info''])) \<and>
   loaded (model_info (Some m)) \<and>
   snd (embed (Some m) r) = [Encode_str (text' r)] \<and>
   (\<forall>d. fst (embed (Some m) r) \<noteq> Inl (HTTPException 503 d)) \<and>
   snd (embed_batch (Some m) rb) = [Encode_list (texts rb)] \<and>
   (\<forall>d. fst (embed_batch (Some m) rb) \<noteq> Inl (HTTPException 503 d))"
proof -
  have e: "app tok None req =
      (\<lparr>status_code = 503, content = Detail ''Model not loaded'',
        Response.headers = cors_headers\<rparr>, [Endpoint ''embed''])"
    if "admits tok req" "method' req = POST" "path req = ''/embed''"
      "EmbedRequest_validate (body req) \<noteq> None"
    using that
    by (auto simp add: app_admitted router_embed embed_unloaded respond_def JSONResponse_def)
  have b: "app tok None req =
      (\<lparr>status_code = 503, content = Detail ''Model not loaded'',
        Response.headers = cors_headers\<rparr>, [Endpoint ''embed_batch''])"
    if "admits tok req" "method' req = POST" "path req = ''/embed/batch''"
      "EmbedBatchRequest_validate (body req) \<noteq> None"
    using that
    by (auto simp add: app_admitted router_embed_batch embed_batch_unloaded respond_def
        JSONResponse_def)
  have h: "status_code (fst (app tok None req)) = 200 \<and>
      content (fst (app tok None req)) = Health health \<and>
      snd (app tok None req) = [Endpoint ''health'']"
    if "method' req = GET" "path req = ''/health''"
  proof -
    from that have "admits tok req" by (simp add: admits_def)
    with that show ?thesis
      by (simp add: app_admitted router_health JSONResponse_def)
  qed
  have i: "app tok None req =
      (\<lparr>status_code = 200,
        content = Info \<lparr>name = MODEL_NAME, ModelInfoResponse.dimensions = 1024,
          loaded = False, languages = ''100+''\<rparr>,
        Response.headers = cors_headers\<rparr>, [Endpoint ''model_info''])"
    if "admits tok req" "method' req = GET" "path req = ''/model/info''"
    using that
    by (simp add: app_admitted router_model_info model_info_def JSONResponse_def)
  have l: "loaded (model_info (Some m))"
    by (simp add: model_info_def)
  have ne: "fst (embed (Some m) r) \<noteq> Inl (HTTPException 503 d)" for d
    by (simp add: embed_def split: sum.splits exn.splits)
  have nb: "fst (embed_batch (Some m) rb) \<noteq> Inl (HTTPException 503 d)" for d
    by (simp add: embed_batch_def split: sum.splits exn.splits)
  show ?thesis
    using e b h i l ne nb
    by (simp add: embed_unloaded embed_batch_unloaded embed_loaded_calls
        embed_batch_loaded_calls)
qed

theorem readiness_gate_witness:
  "app (Some ''S'') None
     \<lparr>method' = POST, path = ''/embed'',
       Request.headers = [''Authorization'' \<mapsto> ''Bearer S''], body = JSON_text ''hello''\<rparr> =
     (\<lparr>status_code = 503, content = Detail ''Model not loaded'',
       Response.headers = cors_headers\<rparr>, [Endpoint ''embed'']) \<and>
   app None None
     \<lparr>method' = POST, path = ''/embed/batch'', Request.headers = Map.empty,
       body = JSON_texts [''a'', ''b'', ''c'']\<rparr> =
     (\<lparr>status_code = 503, content = Detail ''Model not loaded'',
       Response.headers = cors_headers\<rparr>, [Endpoint ''embed_batch'']) \<and>
   status_code (fst (app (Some ''S'') None
     \<lparr>method' = GET, path = ''/health'', Request.headers = Map.empty, body = Other_body\<rparr>))
     = 200 \<and>
   app None None
     \<lparr>method' = GET, path = ''/model/info'', Request.headers = Map.empty, body = Other_body\<rparr> =
     (\<lparr>status_code = 200,
       content = Info \<lparr>name = MODEL_NAME, ModelInfoResponse.dimensions = 1024,
         loaded = False, languages = ''100+''\<rparr>,
       Response.headers = cors_headers\<rparr>, [Endpoint ''model_info'']) \<and>
   loaded (model_info (Some zero_model)) \<and>
   snd (embed (Some zero_model) \<lparr>text' = ''hello''\<rparr>) = [Encode_str ''hello'']"
  using
    readiness_gate [where tok = "Some ''S''" and req =
      "\<lparr>method' = POST, path = ''/embed'',
         Request.headers = [''Authorization'' \<mapsto> ''Bearer S''], body = JSON_text ''hello''\<rparr>"]
    readiness_gate [where tok = None and req =
      "\<lparr>method' = POST, path = ''/embed/batch'', Request.headers = Map.empty,
         body = JSON_texts [''a'', ''b'', ''c'']\<rparr>"]
    readiness_gate [where tok = "Some ''S''" and req =
      "\<lparr>method' = GET, path = ''/health'', Request.headers = Map.empty, body = Other_body\<rparr>"]
    readiness_gate [where tok = None and m = zero_model and r = "\<lparr>text' = ''hello''\<rparr>" and req =
      "\<lparr>method' = GET, path = ''/model/info'', Request.headers = Map.empty, body = Other_body\<rparr>"]
  by (simp add: admits_def py_not_def bearer_def EmbedRequest_validate_def
      EmbedBatchRequest_validate_def)

section \<open>The health endpoint\<close>




section \<open>Cross-origin headers\<close>



section \<open>Preflight requests\<close>

text \<open>
  \<open>options_handler\<close> answers 204 with the empty dictionary as content, and the router
  reaches it for an OPTIONS request to any path. The request passes \<open>auth_middleware\<close>
  first, which does not look at the method.
\<close>

lemma options_admitted:
  "admits tok req \<Longrightarrow> method' req = OPTIONS \<Longrightarrow> any_path (path req) \<Longrightarrow>
   app tok mdl req =
     (\<lparr>status_code = 204, content = Dict [], Response.headers = cors_headers\<rparr>,
      [Endpoint ''options_handler''])"
  by (simp add: app_admitted router_options options_handler_def JSONResponse_def)

text \<open>
  Claim C4 at the input where the code departs from it: with the token \<open>S\<close> configured,
  an OPTIONS request to \<open>/embed\<close> without an \<open>Authorization\<close> header is answered 401 by
  the authentication gate, and \<open>options_handler\<close> is not entered.
\<close>

theorem options_without_credential:
  "app (Some ''S'') None
     \<lparr>method' = OPTIONS, path = ''/embed'', Request.headers = Map.empty, body = Other_body\<rparr> =
   (\<lparr>status_code = 401, content = Dict [(''error'', ''Unauthorized'')],
     Response.headers = cors_headers\<rparr>, [])"
proof -
  have "\<not> admits (Some ''S'')
     \<lparr>method' = OPTIONS, path = ''/embed'', Request.headers = Map.empty, body = Other_body\<rparr>"
    by (simp add: admits_def py_not_def)
  then show ?thesis
    by (simp add: app_rejected unauthorized_def JSONResponse_def)
qed

section \<open>Batch embedding\<close>




text \<open>
  Claim C9. In \<open>embed_batch\<close>, when the model's result list is empty the endpoint
  returns a response with \<open>dimensions = 0\<close>: the access to element 0 sits under the
  test for a non-empty list, so its \<open>IndexError\<close> cannot occur and the handler does not
  answer 500. When the result list is not empty, \<open>dimensions\<close> is the length of its
  first vector.
\<close>

theorem batch_dimensions_guarded:
  "first_dimensions vs = Inr (case vs of [] \<Rightarrow> 0 | v # _ \<Rightarrow> length v) \<and>
   (encode_list m (texts r) = Inr [] \<longrightarrow>
      embed_batch (Some m) r =
        (Inr \<lparr>embeddings = [], EmbedBatchResponse.dimensions = 0,
           EmbedBatchResponse.model = MODEL_NAME\<rparr>, [Encode_list (texts r)])) \<and>
   (encode_list m (texts r) = Inr (v # rest) \<longrightarrow>
      embed_batch (Some m) r =
        (Inr \<lparr>embeddings = v # rest, EmbedBatchResponse.dimensions = length v,
           EmbedBatchResponse.model = MODEL_NAME\<rparr>, [Encode_list (texts r)]))"
  using embed_batch_ok [of m r "[]"] embed_batch_ok [of m r "v # rest"]
  by (simp add: first_dimensions_total)

theorem batch_dimensions_guarded_witness:
  "embed_batch (Some \<lparr>encode_str = (\<lambda>s. Inr []), encode_list = (\<lambda>ts. Inr [])\<rparr>)
     \<lparr>texts = [''a'']\<rparr> =
     (Inr \<lparr>embeddings = [], EmbedBatchResponse.dimensions = 0,
        EmbedBatchResponse.model = MODEL_NAME\<rparr>, [Encode_list [''a'']]) \<and>
   embed_batch (Some \<lparr>encode_str = (\<lambda>s. Inr []), encode_list = (\<lambda>ts. Inr [[1, 2], [3, 4]])\<rparr>)
     \<lparr>texts = [''a'', ''b'']\<rparr> =
     (Inr \<lparr>embeddings = [[1, 2], [3, 4]], EmbedBatchResponse.dimensions = 2,
        EmbedBatchResponse.model = MODEL_NAME\<rparr>, [Encode_list [''a'', ''b'']])"
  using
    batch_dimensions_guarded [where r = "\<lparr>texts = [''a'']\<rparr>"
      and m = "\<lparr>encode_str = (\<lambda>s. Inr []), encode_list = (\<lambda>ts. Inr [])\<rparr>"]
    batch_dimensions_guarded [where r = "\<lparr>texts = [''a'', ''b'']\<rparr>"
      and m = "\<lparr>encode_str = (\<lambda>s. Inr []), encode_list = (\<lambda>ts. Inr [[1, 2], [3, 4]])\<rparr>"
      and v = "[1, 2]" and rest = "[[3, 4]]"]
  by simp

text \<open>
  Claim C10. Validation of a batch request looks only at the length of the list: every
  non-empty list of texts is accepted, whatever its elements are. The list holding just
  the empty string is accepted. With a model loaded, an accepted list is passed to the
  model's \<open>encode\<close> as it is, and the answer is made from what \<open>encode\<close> gives for that
  list: its vectors with status 200, or its exception message with status 500. The
  single-text request with the empty string is refused by validation.
\<close>

theorem batch_elements_unchecked:
  "(ts \<noteq> [] \<longrightarrow> EmbedBatchRequest_validate (JSON_texts ts) = Some \<lparr>texts = ts\<rparr>) \<and>
   EmbedBatchRequest_validate (JSON_texts [[]]) = Some \<lparr>texts = [[]]\<rparr> \<and>
   (admits tok req \<and> method' req = POST \<and> path req = ''/embed/batch'' \<and>
    body req = JSON_texts ts \<and> ts \<noteq> [] \<longrightarrow>
      snd (app tok (Some m) req) = [Endpoint ''embed_batch'', Encode_list ts] \<and>
      fst (app tok (Some m) req) =
        (case encode_list m ts of
           Inl (Exception e) \<Rightarrow>
             \<lparr>status_code = 500,
               content = Detail (''Failed to generate embeddings: '' @ e),
               Response.headers = cors_headers\<rparr>
         | Inr vs \<Rightarrow>
             \<lparr>status_code = 200,
               content = EmbeddedBatch
                 \<lparr>embeddings = vs,
                  EmbedBatchResponse.dimensions =
                    (case vs of [] \<Rightarrow> 0 | v # _ \<Rightarrow> length v),
                  EmbedBatchResponse.model = MODEL_NAME\<rparr>,
               Response.headers = cors_headers\<rparr>)) \<and>
   (admits tok req \<and> method' req = POST \<and> path req = ''/embed/batch'' \<and>
    body req = JSON_texts [[]] \<and> encode_list m [[]] = Inr vs \<longrightarrow>
      content (fst (app tok (Some m) req)) =
        EmbeddedBatch
          \<lparr>embeddings = vs,
           EmbedBatchResponse.dimensions = (case vs of [] \<Rightarrow> 0 | v # _ \<Rightarrow> length v),
           EmbedBatchResponse.model = MODEL_NAME\<rparr>) \<and>
   EmbedRequest_validate (JSON_text []) = None \<and>
   (admits tok req \<and> method' req = POST \<and> path req = ''/embed'' \<and>
    body req = JSON_text [] \<longrightarrow>
      app tok mdl req =
        (\<lparr>status_code = 422, content = ValidationErrors, Response.headers = cors_headers\<rparr>,
         []))"
proof -
  have fwd: "snd (app tok (Some m) req) = [Endpoint ''embed_batch'', Encode_list ts] \<and>
      fst (app tok (Some m) req) =
        (case encode_list m ts of
           Inl (Exception e) \<Rightarrow>
             \<lparr>status_code = 500,
               content = Detail (''Failed to generate embeddings: '' @ e),
               Response.headers = cors_headers\<rparr>
         | Inr vs \<Rightarrow>
             \<lparr>status_code = 200,
               content = EmbeddedBatch
                 \<lparr>embeddings = vs,
                  EmbedBatchResponse.dimensions =
                    (case vs of [] \<Rightarrow> 0 | v # _ \<Rightarrow> length v),
                  EmbedBatchResponse.model = MODEL_NAME\<rparr>,
               Response.headers = cors_headers\<rparr>)"
    if "admits tok req" "method' req = POST" "path req = ''/embed/batch''"
      "body req = JSON_texts ts" "ts \<noteq> []"
    using app_embed_batch_encode [OF that, of m]
    by (simp split: sum.splits exn.splits)
  have one: "content (fst (app tok (Some m) req)) =
        EmbeddedBatch
          \<lparr>embeddings = vs,
           EmbedBatchResponse.dimensions = (case vs of [] \<Rightarrow> 0 | v # _ \<Rightarrow> length v),
           EmbedBatchResponse.model = MODEL_NAME\<rparr>"
    if "admits tok req" "method' req = POST" "path req = ''/embed/batch''"
      "body req = JSON_texts [[]]" "encode_list m [[]] = Inr vs"
    using app_embed_batch_encode [OF that(1-4), of m] that(5)
    by simp
  have rej: "app tok mdl req =
        (\<lparr>status_code = 422, content = ValidationErrors, Response.headers = cors_headers\<rparr>,
         [])"
    if "admits tok req" "method' req = POST" "path req = ''/embed''"
      "body req = JSON_text []"
  proof -
    from that have "EmbedRequest_validate (body req) = None"
      by (simp add: validate_text)
    from app_embed_invalid [OF that(1-3) this] show ?thesis .
  qed
  show ?thesis
    using fwd one rej by (simp add: validate_texts validate_text)
qed

theorem batch_elements_unchecked_witness:
  "EmbedBatchRequest_validate (JSON_texts [[]]) = Some \<lparr>texts = [[]]\<rparr> \<and>
   app None (Some length_model)
     \<lparr>method' = POST, path = ''/embed/batch'', Request.headers = Map.empty,
       body = JSON_texts [[]]\<rparr> =
     (\<lparr>status_code = 200,
       content = EmbeddedBatch
         \<lparr>embeddings = [replicate 1024 0], EmbedBatchResponse.dimensions = 1024,
          EmbedBatchResponse.model = MODEL_NAME\<rparr>,
       Response.headers = cors_headers\<rparr>,
      [Endpoint ''embed_batch'', Encode_list [[]]]) \<and>
   content (fst (app None (Some short_model)
     \<lparr>method' = POST, path = ''/embed/batch'', Request.headers = Map.empty,
       body = JSON_texts [[]]\<rparr>)) =
     EmbeddedBatch
       \<lparr>embeddings = [[1]], EmbedBatchResponse.dimensions = 1,
        EmbedBatchResponse.model = MODEL_NAME\<rparr> \<and>
   app None (Some failing_model)
     \<lparr>method' = POST, path = ''/embed/batch'', Request.headers = Map.empty,
       body = JSON_texts [[]]\<rparr> =
     (\<lparr>status_code = 500,
       content = Detail ''Failed to generate embeddings: CUDA out of memory'',
       Response.headers = cors_headers\<rparr>,
      [Endpoint ''embed_batch'', Encode_list [[]]]) \<and>
   app None (Some zero_model)
     \<lparr>method' = POST, path = ''/embed'', Request.headers = Map.empty,
       body = JSON_text []\<rparr> =
     (\<lparr>status_code = 422, content = ValidationErrors, Response.headers = cors_headers\<rparr>, [])"
proof -
  have g: "admits None
     \<lparr>method' = POST, path = ''/embed/batch'', Request.headers = Map.empty,
       body = JSON_texts [[]]\<rparr>"
    by (simp add: admits_def py_not_def)
  have h: "admits None
     \<lparr>method' = POST, path = ''/embed'', Request.headers = Map.empty,
       body = JSON_text []\<rparr>"
    by (simp add: admits_def py_not_def)
  have a: "app None (Some length_model)
     \<lparr>method' = POST, path = ''/embed/batch'', Request.headers = Map.empty,
       body = JSON_texts [[]]\<rparr> =
     (\<lparr>status_code = 200,
       content = EmbeddedBatch
         \<lparr>embeddings = [replicate 1024 0], EmbedBatchResponse.dimensions = 1024,
          EmbedBatchResponse.model = MODEL_NAME\<rparr>,
       Response.headers = cors_headers\<rparr>,
      [Endpoint ''embed_batch'', Encode_list [[]]])"
    using g batch_elements_unchecked [where ts = "[[]]" and tok = None and m = length_model
      and req = "\<lparr>method' = POST, path = ''/embed/batch'', Request.headers = Map.empty,
        body = JSON_texts [[]]\<rparr>"]
    by (simp add: length_model_def prod_eq_iff)
  have b: "content (fst (app None (Some short_model)
     \<lparr>method' = POST, path = ''/embed/batch'', Request.headers = Map.empty,
       body = JSON_texts [[]]\<rparr>)) =
     EmbeddedBatch
       \<lparr>embeddings = [[1]], EmbedBatchResponse.dimensions = 1,
        EmbedBatchResponse.model = MODEL_NAME\<rparr>"
    using g batch_elements_unchecked [where tok = None and m = short_model and vs = "[[1]]"
      and req = "\<lparr>method' = POST, path = ''/embed/batch'', Request.headers = Map.empty,
        body = JSON_texts [[]]\<rparr>"]
    by (simp add: short_model_def)
  have c: "app None (Some failing_model)
     \<lparr>method' = POST, path = ''/embed/batch'', Request.headers = Map.empty,
       body = JSON_texts [[]]\<rparr> =
     (\<lparr>status_code = 500,
       content = Detail ''Failed to generate embeddings: CUDA out of memory'',
       Response.headers = cors_headers\<rparr>,
      [Endpoint ''embed_batch'', Encode_list [[]]])"
    using g batch_elements_unchecked [where ts = "[[]]" and tok = None and m = failing_model
      and req = "\<lparr>method' = POST, path = ''/embed/batch'', Request.headers = Map.empty,
        body = JSON_texts [[]]\<rparr>"]
    by (simp add: failing_model_def prod_eq_iff)
  have d: "app None (Some zero_model)
     \<lparr>method' = POST, path = ''/embed'', Request.headers = Map.empty,
       body = JSON_text []\<rparr> =
     (\<lparr>status_code = 422, content = ValidationErrors, Response.headers = cors_headers\<rparr>, [])"
    using h batch_elements_unchecked [where tok = None and mdl = "Some zero_model"
      and req = "\<lparr>method' = POST, path = ''/embed'', Request.headers = Map.empty,
        body = JSON_text []\<rparr>"]
    by simp
  from a b c d show ?thesis
    by (simp add: validate_texts)
qed

section \<open>Input validation\<close>




section \<open>Encoding failures\<close>

text \<open>
  Claim C7. With a model loaded, when the model's \<open>encode\<close> raises an exception with
  message \<open>e\<close>, \<open>embed\<close> raises the 500 exception "Failed to generate embedding: e" and
  \<open>embed_batch\<close> the 500 exception "Failed to generate embeddings: e". The application
  turns it into a response with status 500 and that message as detail: the request is
  answered, with the cross-origin headers, and nothing else is raised.
\<close>

theorem encode_failure_is_500:
  "(encode_str m (text' r) = Inl (Exception e) \<longrightarrow>
      embed (Some m) r =
        (Inl (HTTPException 500 (''Failed to generate embedding: '' @ e)),
         [Encode_str (text' r)])) \<and>
   (encode_list m (texts rb) = Inl (Exception e) \<longrightarrow>
      embed_batch (Some m) rb =
        (Inl (HTTPException 500 (''Failed to generate embeddings: '' @ e)),
         [Encode_list (texts rb)])) \<and>
   (admits tok req \<and> method' req = POST \<and> path req = ''/embed'' \<and>
    EmbedRequest_validate (body req) = Some r \<and>
    encode_str m (text' r) = Inl (Exception e) \<longrightarrow>
      app tok (Some m) req =
        (\<lparr>status_code = 500, content = Detail (''Failed to generate embedding: '' @ e),
          Response.headers = cors_headers\<rparr>,
         [Endpoint ''embed'', Encode_str (text' r)])) \<and>
   (admits tok req \<and> method' req = POST \<and> path req = ''/embed/batch'' \<and>
    EmbedBatchRequest_validate (body req) = Some rb \<and>
    encode_list m (texts rb) = Inl (Exception e) \<longrightarrow>
      app tok (Some m) req =
        (\<lparr>status_code = 500, content = Detail (''Failed to generate embeddings: '' @ e),
          Response.headers = cors_headers\<rparr>,
         [Endpoint ''embed_batch'', Encode_list (texts rb)]))"
  by (simp add: embed_raises embed_batch_raises app_embed app_embed_batch respond_def
      JSONResponse_def)

theorem encode_failure_is_500_witness:
  "app None (Some failing_model)
     \<lparr>method' = POST, path = ''/embed'', Request.headers = Map.empty,
       body = JSON_text ''hello''\<rparr> =
     (\<lparr>status_code = 500,
       content = Detail ''Failed to generate embedding: CUDA out of memory'',
       Response.headers = cors_headers\<rparr>,
      [Endpoint ''embed'', Encode_str ''hello'']) \<and>
   app None (Some failing_model)
     \<lparr>method' = POST, path = ''/embed/batch'', Request.headers = Map.empty,
       body = JSON_texts [''a'', ''b'']\<rparr> =
     (\<lparr>status_code = 500,
       content = Detail ''Failed to generate embeddings: CUDA out of memory'',
       Response.headers = cors_headers\<rparr>,
      [Endpoint ''embed_batch'', Encode_list [''a'', ''b'']])"
  using
    encode_failure_is_500 [where tok = None and m = failing_model
      and r = "\<lparr>text' = ''hello''\<rparr>" and e = "''CUDA out of memory''"
      and req = "\<lparr>method' = POST, path = ''/embed'', Request.headers = Map.empty,
        body = JSON_text ''hello''\<rparr>"]
    encode_failure_is_500 [where tok = None and m = failing_model
      and rb = "\<lparr>texts = [''a'', ''b'']\<rparr>" and e = "''CUDA out of memory''"
      and req = "\<lparr>method' = POST, path = ''/embed/batch'', Request.headers = Map.empty,
        body = JSON_texts [''a'', ''b'']\<rparr>"]
  by (simp add: admits_def py_not_def failing_model_def validate_text validate_texts)

end
